theory Spec2Isabelle
  imports Complex_Main
begin

section \<open>Cnchi's pacman interface (\<^verbatim>\<open>src/pacman/pac.py\<close>): data model\<close>

text \<open>
  The class \<^verbatim>\<open>Pac\<close> drives libalpm through pyalpm. The package engine itself is not
  part of the file: it is modelled as a fake engine, at the interface the source uses.
  A package object carries its name and the repository it belongs to
  (\<^verbatim>\<open>pkg.name\<close>, \<^verbatim>\<open>pkg.db.name\<close>); a database has a name, its packages and its groups,
  a group being a name with its member package objects (the source reads
  \<^verbatim>\<open>group_pkg.name\<close> from a member).
\<close>

record package =
  pkg_name :: string
  pkg_db :: string

record database =
  db_name :: string
  pkgcache :: "package list"
  grpcache :: "(string \<times> package list) list"

text \<open>\<^verbatim>\<open>database.get_pkg(name)\<close>: the package of that name, or \<^verbatim>\<open>None\<close>.\<close>

definition get_pkg :: "database \<Rightarrow> string \<Rightarrow> package option" where
  "get_pkg db n = find (\<lambda>p. pkg_name p = n) (pkgcache db)"

text \<open>\<^verbatim>\<open>database.read_grp(name)\<close>: the pair (name, members), or \<^verbatim>\<open>None\<close>.\<close>

definition read_grp :: "database \<Rightarrow> string \<Rightarrow> (string \<times> package list) option" where
  "read_grp db g = find (\<lambda>grp. fst grp = g) (grpcache db)"

text \<open>
  Python exceptions the modelled code can raise, and the three ways a call can end:
  it returns a value, it raises, or it ends the process (\<^verbatim>\<open>sys.exit\<close>).
\<close>

datatype py_error =
  AlpmError | IndexError | ZeroDivisionError | ValueError | TypeError | AttributeError

datatype 'a outcome = Return 'a | Raise py_error | Exit int

text \<open>
  The \<^verbatim>\<open>logging\<close> module: a record is a level, the message and its arguments
  (\<^verbatim>\<open>logging.error("Target %s not found", pkg_name)\<close>); it is kept in a list, oldest first.
\<close>

datatype log_level = DEBUG | WARNING | ERROR

text \<open>
  The Python values that travel as event texts and log arguments: a string, a number
  (an int or a float, by its value: Python compares them by value), a list of strings.
\<close>

datatype pyval = PStr string | PNum real | PList "string list"

type_synonym log_record = "log_level \<times> pyval \<times> pyval list"

subsection \<open>Ordered dictionaries of repositories\<close>

text \<open>
  \<^verbatim>\<open>collections.OrderedDict\<close>: keys in the order of their first insertion; assigning to
  a key that is present replaces its value where it stands.
\<close>

type_synonym 'v ordered_dict = "(string \<times> 'v) list"

fun od_set :: "'v ordered_dict \<Rightarrow> string \<Rightarrow> 'v \<Rightarrow> 'v ordered_dict" where
  "od_set [] k v = [(k, v)]"
| "od_set ((k', v') # d) k v = (if k' = k then (k, v) # d else (k', v') # od_set d k v)"

definition od_values :: "'v ordered_dict \<Rightarrow> 'v list" where
  "od_values d = map snd d"

subsection \<open>\<^verbatim>\<open>Pac.find_sync_package\<close>\<close>

text \<open>
  \<^verbatim>\<open>
  for database in syncdbs.values():
      pkg = database.get_pkg(pkgname)
      if pkg is not None:
          return True, pkg
  return False, "Package '{0}' was not found.".format(pkgname)
  \<close>
  The returned pair (flag, package or message) is a sum: \<open>Inr pkg\<close> for
  \<^verbatim>\<open>(True, pkg)\<close>, \<open>Inl message\<close> for \<^verbatim>\<open>(False, message)\<close>.
\<close>

definition not_found_message :: "string \<Rightarrow> string" where
  "not_found_message pkgname = ''Package '' @ [CHR 0x27] @ pkgname @ [CHR 0x27] @ '' was not found.''"

fun find_sync_package_loop :: "string \<Rightarrow> database list \<Rightarrow> string + package" where
  "find_sync_package_loop pkgname [] = Inl (not_found_message pkgname)"
| "find_sync_package_loop pkgname (database # dbs) =
     (case get_pkg database pkgname of
        Some pkg \<Rightarrow> Inr pkg
      | None \<Rightarrow> find_sync_package_loop pkgname dbs)"

definition find_sync_package :: "string \<Rightarrow> database ordered_dict \<Rightarrow> string + package" where
  "find_sync_package pkgname syncdbs = find_sync_package_loop pkgname (od_values syncdbs)"

subsection \<open>\<^verbatim>\<open>Pac.get_group_pkgs\<close>\<close>

text \<open>
  \<^verbatim>\<open>
  for repo in self.handle.get_syncdbs():
      grp = repo.read_grp(group)
      if grp is not None:
          _name, pkgs = grp
          return pkgs
  return None
  \<close>
\<close>

fun get_group_pkgs_loop :: "database list \<Rightarrow> string \<Rightarrow> package list option" where
  "get_group_pkgs_loop [] grp_name = None"
| "get_group_pkgs_loop (repo # repos) grp_name =
     (case read_grp repo grp_name of
        Some grp \<Rightarrow> Some (snd grp)
      | None \<Rightarrow> get_group_pkgs_loop repos grp_name)"

subsection \<open>Transactions of the fake engine\<close>

text \<open>
  A transaction object records the calls made on it, in order. Whether
  \<^verbatim>\<open>prepare()\<close> and \<^verbatim>\<open>commit()\<close> raise \<^verbatim>\<open>pyalpm.error\<close> is the engine's answer:
  \<open>None\<close> when the call succeeds, the error's text when it raises.
  \<^verbatim>\<open>add_pkg\<close> and \<^verbatim>\<open>release\<close> are taken not to raise: the source has no handler around them.
\<close>

datatype trans_call = AddPkg package | Prepare | Commit | Release

record transaction =
  calls :: "trans_call list"
  prepare_error :: "string option"
  commit_error :: "string option"

definition called :: "transaction \<Rightarrow> trans_call \<Rightarrow> transaction" where
  "called t c = t\<lparr>calls := calls t @ [c]\<rparr>"

text \<open>
  \<^verbatim>\<open>
  try:
      logging.debug("Prepare alpm transaction...")
      transaction.prepare()
      logging.debug("Commit alpm transaction...")
      transaction.commit()
  except pyalpm.error as err:
      logging.error("Can't finalize alpm transaction: %s", err)
      transaction.release()
      return False
  transaction.release()
  logging.debug("Alpm transaction done.")
  return True
  \<close>
  The function is static; the log it writes to is passed and returned.
\<close>

definition finalize_transaction ::
  "transaction \<Rightarrow> log_record list \<Rightarrow> bool \<times> transaction \<times> log_record list" where
  "finalize_transaction transaction lg =
     (let lg1 = lg @ [(DEBUG, PStr ''Prepare alpm transaction...'', [])];
          t1 = called transaction Prepare
      in case prepare_error t1 of
           Some err \<Rightarrow>
             (False, called t1 Release,
              lg1 @ [(ERROR, PStr ''Can't finalize alpm transaction: %s'', [PStr err])])
         | None \<Rightarrow>
             (let lg2 = lg1 @ [(DEBUG, PStr ''Commit alpm transaction...'', [])];
                  t2 = called t1 Commit
              in case commit_error t2 of
                   Some err \<Rightarrow>
                     (False, called t2 Release,
                      lg2 @ [(ERROR, PStr ''Can't finalize alpm transaction: %s'', [PStr err])])
                 | None \<Rightarrow>
                     (True, called t2 Release,
                      lg2 @ [(DEBUG, PStr ''Alpm transaction done.'', [])])))"

subsection \<open>The Python runtime and the event queue\<close>

text \<open>
  What the source takes from the Python runtime and from pyalpm's types, and this file
  does not define, is a parameter of the model:
  \<^item> \<open>format_2f\<close>: \<^verbatim>\<open>"{0:.2f}".format(x)\<close> on a number;
  \<^item> \<open>str_other\<close>: \<^verbatim>\<open>"{0}".format(v)\<close> on a value that is not a string;
  \<^item> \<open>pkg_eq_str\<close>: Python's \<^verbatim>\<open>==\<close> between a pyalpm package object and a string, which
    decides \<^verbatim>\<open>name in one_repo_pkgs\<close> (a set of package objects);
  \<^item> \<open>co_name\<close>, \<open>co_filename\<close>, \<open>co_firstlineno\<close>: the code object of the caller's
    frame, which \<^verbatim>\<open>inspect.currentframe().f_back.f_code\<close> reads.
  The translation function \<^verbatim>\<open>_\<close> is the identity the source defines for itself when no
  translation is installed.
\<close>

record pyenv =
  format_2f :: "real \<Rightarrow> string"
  str_other :: "pyval \<Rightarrow> string"
  pkg_eq_str :: "package \<Rightarrow> string \<Rightarrow> bool"
  co_name :: string
  co_filename :: string
  co_firstlineno :: int

definition py_str :: "pyenv \<Rightarrow> pyval \<Rightarrow> string" where
  "py_str env v = (case v of PStr s \<Rightarrow> s | _ \<Rightarrow> str_other env v)"

text \<open>Decimal digits of an integer, as \<^verbatim>\<open>"{0}".format(i)\<close> prints an int.\<close>

fun str_nat :: "nat \<Rightarrow> string" where
  "str_nat n =
     (if n < 10 then [''0123456789'' ! n]
      else str_nat (n div 10) @ [''0123456789'' ! (n mod 10)])"

definition str_int :: "int \<Rightarrow> string" where
  "str_int i = (if i < 0 then CHR ''-'' # str_nat (nat (- i)) else str_nat (nat i))"

text \<open>
  The callback queue (\<^verbatim>\<open>queue.Queue\<close> semantics): \<open>maxsize\<close> 0 is unbounded;
  \<open>pending\<close> holds the items put and not yet taken by the consumer, oldest first;
  \<open>consumed\<close> the items the consumer has taken and marked done.
  \<^verbatim>\<open>put_nowait\<close> raises \<^verbatim>\<open>queue.Full\<close> (here \<open>None\<close>) when
  \<^verbatim>\<open>0 < maxsize <= qsize()\<close>. \<^verbatim>\<open>join()\<close> returns once the consumer has taken every item:
  it is modelled by that postcondition (a consumer that never drains the queue, for
  which \<^verbatim>\<open>join()\<close> would not return, is outside the model).
\<close>

type_synonym event = "string \<times> pyval"

record event_queue =
  maxsize :: nat
  pending :: "event list"
  consumed :: "event list"

definition put_nowait :: "event_queue \<Rightarrow> event \<Rightarrow> event_queue option" where
  "put_nowait q item =
     (if 0 < maxsize q \<and> maxsize q \<le> length (pending q) then None
      else Some (q\<lparr>pending := pending q @ [item]\<rparr>))"

definition join :: "event_queue \<Rightarrow> event_queue" where
  "join q = q\<lparr>consumed := consumed q @ pending q, pending := []\<rparr>"

subsection \<open>The engine handle and the state of a \<^verbatim>\<open>Pac\<close> object\<close>

text \<open>
  The handle gives the sync databases in their configured order and answers
  \<^verbatim>\<open>init_transaction\<close>: \<open>Inl err\<close> when it raises \<^verbatim>\<open>pyalpm.error\<close>, \<open>Inr t\<close> with the new
  transaction otherwise (the answer may depend on the options; the twelve flags the
  source derives from them are the engine's business). \<open>trans\<close> is the transaction
  object the engine holds, kept after its release so that the calls made on it can be
  read. The state of a \<^verbatim>\<open>Pac\<close> object is its attributes, together with the log.
\<close>

type_synonym options = "(string \<times> int) list"

record alpm_handle =
  syncdbs :: "database list"
  init_answer :: "options \<Rightarrow> string + transaction"
  trans :: "transaction option"

record pac =
  callback_queue :: "event_queue option"
  handle :: "alpm_handle option"
  last_dl_filename :: "string option"
  last_dl_progress :: real
  last_dl_total_size :: int
  total_packages_to_download :: int
  downloaded_packages :: int
  total_download_size :: int
  last_event :: "string \<rightharpoonup> pyval"
  logged :: "log_record list"

definition logging :: "log_level \<Rightarrow> pyval \<Rightarrow> pyval list \<Rightarrow> pac \<Rightarrow> pac" where
  "logging lvl msg args s = s\<lparr>logged := logged s @ [(lvl, msg, args)]\<rparr>"

subsection \<open>\<^verbatim>\<open>Pac.queue_event\<close>\<close>

text \<open>
  \<^verbatim>\<open>
  if event_type == "percent":
      event_text = "{0:.2f}".format(event_text)
  if event_type in self.last_event:
      if self.last_event[event_type] == event_text:
          return
  self.last_event[event_type] = event_text
  if event_type == "error":
      func = inspect.currentframe().f_back.f_code
      event_text = "{0}: {1} in {2}:{3}".format(
          event_text, func.co_name, func.co_filename, func.co_firstlineno)
  if self.callback_queue is None:
      if event_type == "error":
          logging.error(event_text)
          sys.exit(1)
      else:
          logging.debug(event_text)
  else:
      try:
          self.callback_queue.put_nowait((event_type, event_text))
      except queue.Full:
          logging.warning("Callback queue is full")
      if event_type == "error":
          self.callback_queue.join()
          sys.exit(1)
  \<close>
  The format code \<^verbatim>\<open>.2f\<close> applies to numbers only: a string raises \<^verbatim>\<open>ValueError\<close>, a list
  \<^verbatim>\<open>TypeError\<close>.
\<close>

definition format_percent :: "pyenv \<Rightarrow> pyval \<Rightarrow> py_error + pyval" where
  "format_percent env v =
     (case v of
        PNum x \<Rightarrow> Inr (PStr (format_2f env x))
      | PStr _ \<Rightarrow> Inl ValueError
      | PList _ \<Rightarrow> Inl TypeError)"

definition formatted :: "pyenv \<Rightarrow> string \<Rightarrow> pyval \<Rightarrow> py_error + pyval" where
  "formatted env event_type event_text =
     (if event_type = ''percent'' then format_percent env event_text else Inr event_text)"

definition error_text :: "pyenv \<Rightarrow> pyval \<Rightarrow> pyval" where
  "error_text env event_text =
     PStr (py_str env event_text @ '': '' @ co_name env @ '' in '' @ co_filename env
           @ '':'' @ str_int (co_firstlineno env))"

definition queue_event :: "pyenv \<Rightarrow> pac \<Rightarrow> string \<Rightarrow> pyval \<Rightarrow> unit outcome \<times> pac" where
  "queue_event env s event_type event_text =
     (case formatted env event_type event_text of
        Inl e \<Rightarrow> (Raise e, s)
      | Inr event_text1 \<Rightarrow>
          if last_event s event_type = Some event_text1 then (Return (), s)
          else
            (let s1 = s\<lparr>last_event := (last_event s)(event_type \<mapsto> event_text1)\<rparr>;
                 event_text2 = (if event_type = ''error'' then error_text env event_text1
                                else event_text1)
             in case callback_queue s1 of
                  None \<Rightarrow>
                    if event_type = ''error'' then (Exit 1, logging ERROR event_text2 [] s1)
                    else (Return (), logging DEBUG event_text2 [] s1)
                | Some q \<Rightarrow>
                    (let s2 = (case put_nowait q (event_type, event_text2) of
                                 Some q' \<Rightarrow> s1\<lparr>callback_queue := Some q'\<rparr>
                               | None \<Rightarrow> logging WARNING (PStr ''Callback queue is full'') [] s1)
                     in if event_type = ''error''
                        then (Exit 1, s2\<lparr>callback_queue := map_option join (callback_queue s2)\<rparr>)
                        else (Return (), s2))))"

text \<open>A sequence of \<^verbatim>\<open>queue_event\<close> calls, in order; it stops where a call does not return.\<close>

fun queue_events :: "pyenv \<Rightarrow> pac \<Rightarrow> event list \<Rightarrow> unit outcome \<times> pac" where
  "queue_events env s [] = (Return (), s)"
| "queue_events env s (ev # evs) =
     (case queue_event env s (fst ev) (snd ev) of
        (Return u, s') \<Rightarrow> queue_events env s' evs
      | r \<Rightarrow> r)"

text \<open>
  A callback is modelled in two steps: the \<^verbatim>\<open>queue_event\<close> calls it makes, in order,
  with the way it ends after them and its assignments to the object's attributes; then
  \<open>emit\<close> performs the calls on the state. None of the callbacks reads what
  \<^verbatim>\<open>queue_event\<close> changes (the queue, \<open>last_event\<close>, the log), and each makes its
  assignments before its first call, so the two steps are the callback.
\<close>

definition emit :: "pyenv \<Rightarrow> event list \<times> unit outcome \<times> pac \<Rightarrow> unit outcome \<times> pac" where
  "emit env r =
     (case r of (evs, out, s) \<Rightarrow>
        (case queue_events env s evs of
           (Return u, s') \<Rightarrow> (out, s')
         | q \<Rightarrow> q))"

subsection \<open>The progress callbacks\<close>

text \<open>\<^verbatim>\<open>cb_totaldl\<close>: \<^verbatim>\<open>self.total_download_size = total_size\<close>.\<close>

definition cb_totaldl :: "pac \<Rightarrow> int \<Rightarrow> pac" where
  "cb_totaldl s total_size = s\<lparr>total_download_size := total_size\<rparr>"

text \<open>
  \<^verbatim>\<open>
  def cb_progress(self, target, percent, total, current):
      if target:
          msg = _("Installing {0} ({1}/{2})").format(target, current, total)
          self.queue_event('info', msg)
          percent = current / total
          self.queue_event('percent', percent)
      else:
          percent /= 100
          self.queue_event('percent', percent)
  \<close>
  pyalpm passes the target's name (empty when there is none) and three ints.
  \<^verbatim>\<open>current / total\<close> is Python's true division: \<^verbatim>\<open>ZeroDivisionError\<close> when
  \<^verbatim>\<open>total\<close> is 0, raised after the info event has been queued.
\<close>

definition installing_msg :: "string \<Rightarrow> int \<Rightarrow> int \<Rightarrow> string" where
  "installing_msg target current total' =
     ''Installing '' @ target @ '' ('' @ str_int current @ ''/'' @ str_int total' @ '')''"

definition cb_progress_calls ::
  "string \<Rightarrow> int \<Rightarrow> int \<Rightarrow> int \<Rightarrow> event list \<times> unit outcome" where
  "cb_progress_calls target percent total' current =
     (if target \<noteq> [] then
        (if total' = 0
         then ([(''info'', PStr (installing_msg target current total'))],
               Raise ZeroDivisionError)
         else ([(''info'', PStr (installing_msg target current total')),
                (''percent'', PNum (real_of_int current / real_of_int total'))],
               Return ()))
      else ([(''percent'', PNum (real_of_int percent / 100))], Return ()))"

definition cb_progress ::
  "pyenv \<Rightarrow> pac \<Rightarrow> string \<Rightarrow> int \<Rightarrow> int \<Rightarrow> int \<Rightarrow> unit outcome \<times> pac" where
  "cb_progress env s target percent total' current =
     (case cb_progress_calls target percent total' current of
        (evs, out) \<Rightarrow> emit env (evs, out, s))"

text \<open>
  \<^verbatim>\<open>
  def cb_dl(self, filename, transfer, total):
      if filename != self.last_dl_filename or self.last_dl_total_size != total:
          self.last_dl_filename = filename
          self.last_dl_total_size = total
          self.last_dl_progress = 0
          if self.total_download_size == 0:
              ext = ".db"
              if filename.endswith(ext):
                  filename = filename[:-len(ext)]
              text = _("Updating {0} database").format(filename)
          else:
              ext = ".pkg.tar.xz"
              if filename.endswith(ext):
                  filename = filename[:-len(ext)]
              self.downloaded_packages += 1
              text = _("Downloading {0}...").format(filename)
          self.queue_event('info', text)
          self.queue_event('percent', 0)
      else:
          if self.last_dl_total_size > 0:
              progress = transfer / self.last_dl_total_size
          else:
              progress = (math.log(1 + transfer / 1024) ** 2 / 2) / 100
          if progress > self.last_dl_progress:
              self.last_dl_progress = progress
              self.queue_event('percent', progress)
  \<close>
  Progress values are Python floats; the model computes them in the reals.
  \<^verbatim>\<open>math.log\<close> raises \<^verbatim>\<open>ValueError\<close> on an argument that is not positive.
\<close>

definition strip_ext :: "string \<Rightarrow> string \<Rightarrow> string" where
  "strip_ext ext filename =
     (if length ext \<le> length filename \<and> drop (length filename - length ext) filename = ext
      then take (length filename - length ext) filename
      else filename)"

definition dl_unsized_progress :: "int \<Rightarrow> py_error + real" where
  "dl_unsized_progress transfer =
     (let x = 1 + real_of_int transfer / 1024
      in if x \<le> 0 then Inl ValueError else Inr ((ln x)\<^sup>2 / 2 / 100))"

definition dl_progress :: "int \<Rightarrow> int \<Rightarrow> py_error + real" where
  "dl_progress last_total transfer =
     (if last_total > 0 then Inr (real_of_int transfer / real_of_int last_total)
      else dl_unsized_progress transfer)"

definition cb_dl_calls ::
  "pac \<Rightarrow> string \<Rightarrow> int \<Rightarrow> int \<Rightarrow> event list \<times> unit outcome \<times> pac" where
  "cb_dl_calls s filename transfer total' =
     (if Some filename \<noteq> last_dl_filename s \<or> last_dl_total_size s \<noteq> total' then
        (let s1 = s\<lparr>last_dl_filename := Some filename, last_dl_total_size := total',
                     last_dl_progress := 0\<rparr>
         in if total_download_size s1 = 0
            then ([(''info'', PStr (''Updating '' @ strip_ext ''.db'' filename @ '' database'')),
                   (''percent'', PNum 0)],
                  Return (), s1)
            else ([(''info'', PStr (''Downloading '' @ strip_ext ''.pkg.tar.xz'' filename @ ''...'')),
                   (''percent'', PNum 0)],
                  Return (), s1\<lparr>downloaded_packages := downloaded_packages s1 + 1\<rparr>))
      else
        (case dl_progress (last_dl_total_size s) transfer of
           Inl e \<Rightarrow> ([], Raise e, s)
         | Inr progress \<Rightarrow>
             if progress > last_dl_progress s
             then ([(''percent'', PNum progress)], Return (), s\<lparr>last_dl_progress := progress\<rparr>)
             else ([], Return (), s)))"

definition cb_dl :: "pyenv \<Rightarrow> pac \<Rightarrow> string \<Rightarrow> int \<Rightarrow> int \<Rightarrow> unit outcome \<times> pac" where
  "cb_dl env s filename transfer total' = emit env (cb_dl_calls s filename transfer total')"

text \<open>
  The percent values \<^verbatim>\<open>cb_dl\<close> passes to \<^verbatim>\<open>queue_event\<close> over a sequence of calls for one
  download stream (one file name, one total size), given by the transfer amounts of the
  calls. The sequence ends where a call does not return.
\<close>

definition percents_of :: "event list \<Rightarrow> real list" where
  "percents_of evs =
     concat (map (\<lambda>ev. case ev of (k, PNum x) \<Rightarrow> (if k = ''percent'' then [x] else [])
                             | _ \<Rightarrow> []) evs)"

fun dl_stream_percents :: "pyenv \<Rightarrow> pac \<Rightarrow> string \<Rightarrow> int \<Rightarrow> int list \<Rightarrow> real list" where
  "dl_stream_percents env s filename total' [] = []"
| "dl_stream_percents env s filename total' (transfer # transfers) =
     percents_of (fst (cb_dl_calls s filename transfer total'))
     @ (case cb_dl env s filename transfer total' of
          (Return u, s') \<Rightarrow> dl_stream_percents env s' filename total' transfers
        | _ \<Rightarrow> [])"

subsection \<open>\<^verbatim>\<open>Pac.init_transaction\<close> and \<^verbatim>\<open>Pac.install\<close>\<close>

text \<open>
  \<^verbatim>\<open>
  if options is None:
      options = {}
  transaction = None
  try:
      transaction = self.handle.init_transaction(...)
  except pyalpm.error as pyalpm_error:
      logging.error("Can't init alpm transaction: %s", pyalpm_error)
  return transaction
  \<close>
\<close>

definition init_transaction ::
  "pac \<Rightarrow> options option \<Rightarrow> transaction option outcome \<times> pac" where
  "init_transaction s opts =
     (let opts1 = (case opts of None \<Rightarrow> [] | Some ops \<Rightarrow> ops)
      in case handle s of
           None \<Rightarrow> (Raise AttributeError, s)
         | Some h \<Rightarrow>
             (case init_answer h opts1 of
                Inl err \<Rightarrow>
                  (Return None,
                   logging ERROR (PStr ''Can't init alpm transaction: %s'') [PStr err] s)
              | Inr t \<Rightarrow> (Return (Some t), s\<lparr>handle := Some (h\<lparr>trans := Some t\<rparr>)\<rparr>)))"

text \<open>
  The exclusive-source packages of \<^verbatim>\<open>install\<close>:
  \<^verbatim>\<open>
  one_repo_groups_names = ['cinnamon', 'mate', 'mate-extra']
  one_repo_groups = []
  for one_repo_group_name in one_repo_groups_names:
      grp = antdb['antergos'].read_grp(one_repo_group_name)
      if not grp:
          grp = ['None', []]
      one_repo_groups.append(grp)
  one_repo_pkgs = {pkg for one_repo_group in one_repo_groups
                   for pkg in one_repo_group[1] if one_repo_group}
  \<close>
  A group read from the database is a pair, never falsy, so the filter of the
  comprehension keeps every member. The set is kept as a list; only membership is asked.
\<close>

definition one_repo_groups_names :: "string list" where
  "one_repo_groups_names = [''cinnamon'', ''mate'', ''mate-extra'']"

definition one_repo_groups :: "database \<Rightarrow> (string \<times> package list) list" where
  "one_repo_groups antergos =
     map (\<lambda>one_repo_group_name.
            case read_grp antergos one_repo_group_name of
              None \<Rightarrow> (''None'', [])
            | Some grp \<Rightarrow> grp)
         one_repo_groups_names"

definition one_repo_pkgs :: "database \<Rightarrow> package list" where
  "one_repo_pkgs antergos = concat (map snd (one_repo_groups antergos))"

definition name_in :: "pyenv \<Rightarrow> string \<Rightarrow> package list \<Rightarrow> bool" where
  "name_in env n pkgs = list_ex (\<lambda>pkg. pkg_eq_str env pkg n) pkgs"

text \<open>
  \<^verbatim>\<open>
  for syncdb in self.handle.get_syncdbs():
      repo_order.append(syncdb)
      repos[syncdb.name] = syncdb
  \<close>
\<close>

definition repos_of :: "database list \<Rightarrow> database ordered_dict" where
  "repos_of dbs = foldl (\<lambda>repos syncdb. od_set repos (db_name syncdb) syncdb) [] dbs"

text \<open>
  One round of the resolution loop of \<^verbatim>\<open>install\<close>, on the targets and the log so far:
  \<^verbatim>\<open>
  for name in pkgs:
      _repos = repos
      if name in one_repo_pkgs:
          # pkg should be sourced from the antergos repo only.
          _repos = antdb
      result_ok, pkg = self.find_sync_package(name, _repos)
      if result_ok:
          if pkg.name not in conflicts:
              targets.append(pkg.name)
      else:
          group_pkgs = self.get_group_pkgs(name)
          if group_pkgs is not None:
              for group_pkg in group_pkgs:
                  if group_pkg.name not in conflicts:
                      targets.append(group_pkg.name)
          else:
              logging.error("Can't find a package or group called '%s'", name)
  \<close>
\<close>

definition cant_find_msg :: string where
  "cant_find_msg = ''Can't find a package or group called '%s'' @ [CHR 0x27]"

definition resolve_name ::
  "pyenv \<Rightarrow> database list \<Rightarrow> database \<Rightarrow> string list \<Rightarrow>
   string list \<times> log_record list \<Rightarrow> string \<Rightarrow> string list \<times> log_record list" where
  "resolve_name env dbs antergos conflicts acc n =
     (case acc of (targets, lg) \<Rightarrow>
        (let repos1 = (if name_in env n (one_repo_pkgs antergos)
                       then [(''antergos'', antergos)] else repos_of dbs)
         in case find_sync_package n repos1 of
              Inr pkg \<Rightarrow>
                (if pkg_name pkg \<notin> set conflicts then (targets @ [pkg_name pkg], lg)
                 else (targets, lg))
            | Inl msg \<Rightarrow>
                (case get_group_pkgs_loop dbs n of
                   Some group_pkgs \<Rightarrow>
                     (targets @ filter (\<lambda>g. g \<notin> set conflicts) (map pkg_name group_pkgs), lg)
                 | None \<Rightarrow>
                     (targets,
                      lg @ [(ERROR, PStr cant_find_msg, [PStr n])]))))"

text \<open>
  The targets of \<^verbatim>\<open>install\<close>, from the requested names to
  \<^verbatim>\<open>targets = list(set(targets))\<close>. Python does not specify the order in which a set is
  listed; the model lists it in the order of first occurrence, and the properties below
  speak of the elements only.
\<close>

definition resolve_targets ::
  "pyenv \<Rightarrow> database list \<Rightarrow> database \<Rightarrow> string list \<Rightarrow> string list \<Rightarrow>
   log_record list \<Rightarrow> string list \<times> log_record list" where
  "resolve_targets env dbs antergos conflicts pkgs lg =
     (case foldl (resolve_name env dbs antergos conflicts) ([], lg) (remdups pkgs) of
        (targets, lg') \<Rightarrow> (remdups targets, lg'))"

text \<open>
  The second loop of \<^verbatim>\<open>install\<close>, one round:
  \<^verbatim>\<open>
  for _index in range(0, num_targets):
      result_ok, pkg = self.find_sync_package(targets.pop(), repos)
      if result_ok:
          transaction.add_pkg(pkg)
      else:
          logging.warning(pkg)
  \<close>
  \<^verbatim>\<open>targets.pop()\<close> takes the names from the end of the list.
\<close>

definition add_target ::
  "database ordered_dict \<Rightarrow> transaction \<times> log_record list \<Rightarrow> string \<Rightarrow>
   transaction \<times> log_record list" where
  "add_target repos acc n =
     (case acc of (t, lg) \<Rightarrow>
        (case find_sync_package n repos of
           Inr pkg \<Rightarrow> (called t (AddPkg pkg), lg)
         | Inl msg \<Rightarrow> (t, lg @ [(WARNING, PStr msg, [])])))"

text \<open>
  \<^verbatim>\<open>install(self, pkgs, conflicts=None, options=None)\<close>, where
  \<^verbatim>\<open>if not conflicts: conflicts = []\<close> is \<open>conflicts_list\<close>. It raises \<^verbatim>\<open>pyalpm.error\<close>
  without a handle or with no package name, and \<^verbatim>\<open>IndexError\<close> at \<^verbatim>\<open>db_match[0]\<close> when no
  sync database is called antergos.
\<close>

definition conflicts_list :: "string list option \<Rightarrow> string list" where
  "conflicts_list conflicts = (case conflicts of None \<Rightarrow> [] | Some c \<Rightarrow> c)"

definition install ::
  "pyenv \<Rightarrow> pac \<Rightarrow> string list \<Rightarrow> string list option \<Rightarrow> options option \<Rightarrow>
   bool outcome \<times> pac" where
  "install env s pkgs conflicts opts =
     (let conflicts1 = conflicts_list conflicts
      in case handle s of
           None \<Rightarrow> (Raise AlpmError, logging ERROR (PStr ''alpm is not initialised'') [] s)
         | Some h \<Rightarrow>
             if pkgs = [] then
               (Raise AlpmError, logging ERROR (PStr ''Package list is empty'') [] s)
             else
               (case filter (\<lambda>db. db_name db = ''antergos'') (syncdbs h) of
                  [] \<Rightarrow> (Raise IndexError, s)
                | antergos # _ \<Rightarrow>
                    (case resolve_targets env (syncdbs h) antergos conflicts1 pkgs (logged s) of
                       (targets, lg) \<Rightarrow>
                         (let s1 = logging DEBUG (PList targets) [] (s\<lparr>logged := lg\<rparr>)
                          in if targets = [] then
                               (Return False, logging ERROR (PStr ''No targets found'') [] s1)
                             else
                               (let num_targets = int (length targets);
                                    s2 = logging DEBUG (PStr ''%d target(s) found'')
                                           [PNum (real_of_int num_targets)] s1;
                                    s3 = s2\<lparr>total_packages_to_download := num_targets\<rparr>
                                in case init_transaction s3 opts of
                                     (Return None, s4) \<Rightarrow>
                                       (Return False,
                                        logging ERROR (PStr ''Can't initialize alpm transaction'')
                                          [] s4)
                                   | (Return (Some t), s4) \<Rightarrow>
                                       (case foldl (add_target (repos_of (syncdbs h)))
                                               (t, logged s4) (rev targets) of
                                          (t1, lg1) \<Rightarrow>
                                            (case finalize_transaction t1 lg1 of
                                               (ok, t2, lg2) \<Rightarrow>
                                                 (Return ok,
                                                  s4\<lparr>logged := lg2,
                                                      handle := Some (h\<lparr>trans := Some t2\<rparr>)\<rparr>)))
                                   | (Raise e, s4) \<Rightarrow> (Raise e, s4)
                                   | (Exit c, s4) \<Rightarrow> (Exit c, s4))))))"

subsection \<open>Vocabulary of the properties\<close>

text \<open>
  What one requested name contributes to the targets, and when a name is neither a
  package of the repositories searched for it nor a group: both read off
  \<open>resolve_name\<close>.
\<close>

definition name_targets :: "pyenv \<Rightarrow> database list \<Rightarrow> database \<Rightarrow> string list \<Rightarrow> string \<Rightarrow> string list" where
  "name_targets env dbs antergos conflicts n =
     fst (resolve_name env dbs antergos conflicts ([], []) n)"

definition unresolved :: "pyenv \<Rightarrow> database list \<Rightarrow> database \<Rightarrow> string \<Rightarrow> bool" where
  "unresolved env dbs antergos n =
     ((case find_sync_package n (if name_in env n (one_repo_pkgs antergos)
                                then [(''antergos'', antergos)] else repos_of dbs) of
         Inl msg \<Rightarrow> True | Inr pkg \<Rightarrow> False)
      \<and> get_group_pkgs_loop dbs n = None)"

text \<open>
  The packages added to the transaction the engine holds; the engine's answer to a
  whole transaction (it can be initialised, prepared and committed); the log record of
  the failure for want of targets; the records a call has added to the log.
\<close>

definition added_packages :: "pac \<Rightarrow> package list" where
  "added_packages s =
     (case handle s of
        None \<Rightarrow> []
      | Some h \<Rightarrow>
          (case trans h of
             None \<Rightarrow> []
           | Some t \<Rightarrow> concat (map (\<lambda>c. case c of AddPkg p \<Rightarrow> [p] | _ \<Rightarrow> []) (calls t))))"

definition engine_ok :: "alpm_handle \<Rightarrow> options option \<Rightarrow> bool" where
  "engine_ok h opts =
     (case init_answer h (case opts of None \<Rightarrow> [] | Some ops \<Rightarrow> ops) of
        Inl err \<Rightarrow> False
      | Inr t \<Rightarrow> prepare_error t = None \<and> commit_error t = None)"

definition no_targets_record :: log_record where
  "no_targets_record = (ERROR, PStr ''No targets found'', [])"

definition new_log :: "pac \<Rightarrow> pac \<Rightarrow> log_record list" where
  "new_log s s' = drop (length (logged s)) (logged s')"

text \<open>
  The text of the last \<^verbatim>\<open>queue_event\<close> call of one kind in a sequence of calls
  (the list is in call order).
\<close>

fun most_recent :: "string \<Rightarrow> event list \<Rightarrow> pyval option" where
  "most_recent k [] = None"
| "most_recent k (ev # evs) =
     (case most_recent k evs of
        Some v \<Rightarrow> Some v
      | None \<Rightarrow> (if fst ev = k then Some (snd ev) else None))"

subsection \<open>Concrete inputs\<close>

text \<open>
  Three repositories in priority order; the package nemo is in community and in
  antergos, and the antergos group cinnamon lists it. \<open>ex_pac\<close> is the state of a
  \<^verbatim>\<open>Pac\<close> object as \<^verbatim>\<open>__init__\<close> leaves it; \<open>ex_format_2f\<close> stands for the
  formatter in the examples: it prints two decimals of a number that is not negative,
  rounding half up (Python rounds the binary float half to even and keeps a sign; the
  examples use values on which both agree).
\<close>

definition bash_core :: package where "bash_core = \<lparr>pkg_name = ''bash'', pkg_db = ''core''\<rparr>"
definition nemo_community :: package where "nemo_community = \<lparr>pkg_name = ''nemo'', pkg_db = ''community''\<rparr>"
definition nemo_antergos :: package where "nemo_antergos = \<lparr>pkg_name = ''nemo'', pkg_db = ''antergos''\<rparr>"

definition ex_core :: database where
  "ex_core = \<lparr>db_name = ''core'', pkgcache = [bash_core], grpcache = [(''base'', [bash_core])]\<rparr>"
definition ex_community :: database where
  "ex_community = \<lparr>db_name = ''community'', pkgcache = [nemo_community], grpcache = []\<rparr>"
definition ex_antergos :: database where
  "ex_antergos = \<lparr>db_name = ''antergos'', pkgcache = [nemo_antergos],
                  grpcache = [(''cinnamon'', [nemo_antergos])]\<rparr>"
definition ex_dbs :: "database list" where "ex_dbs = [ex_core, ex_community, ex_antergos]"

definition ex_format_2f :: "real \<Rightarrow> string" where
  "ex_format_2f x = (let c = nat \<lfloor>x * 100 + 1 / 2\<rfloor>
     in str_nat (c div 100) @ ''.'' @ str_nat (c div 10 mod 10) @ str_nat (c mod 10))"

definition ex_env :: pyenv where
  "ex_env = \<lparr>format_2f = ex_format_2f, str_other = (\<lambda>v. ''''),
             pkg_eq_str = (\<lambda>pkg n. pkg_name pkg = n),
             co_name = ''run'', co_filename = ''install.py'', co_firstlineno = 42\<rparr>"

definition ex_transaction :: "string option \<Rightarrow> string option \<Rightarrow> transaction" where
  "ex_transaction pe ce = \<lparr>calls = [], prepare_error = pe, commit_error = ce\<rparr>"

definition ex_handle :: "string + transaction \<Rightarrow> alpm_handle" where
  "ex_handle answer = \<lparr>syncdbs = ex_dbs, init_answer = (\<lambda>opts. answer), trans = None\<rparr>"

definition ex_pac :: "event_queue option \<Rightarrow> alpm_handle option \<Rightarrow> pac" where
  "ex_pac q h = \<lparr>callback_queue = q, handle = h, last_dl_filename = None,
                 last_dl_progress = 0, last_dl_total_size = 0,
                 total_packages_to_download = 0, downloaded_packages = 0,
                 total_download_size = 0, last_event = Map.empty, logged = []\<rparr>"

text \<open>
  A \<^verbatim>\<open>Pac\<close> object with the example handle and no consumer; an unbounded empty queue; a
  queue of capacity one that is full; the state in the middle of the download of a file
  of 1000 bytes.
\<close>

definition ex_state :: "string + transaction \<Rightarrow> pac" where
  "ex_state answer = ex_pac None (Some (ex_handle answer))"

definition ex_queue :: event_queue where
  "ex_queue = \<lparr>maxsize = 0, pending = [], consumed = []\<rparr>"

definition ex_full_queue :: event_queue where
  "ex_full_queue = \<lparr>maxsize = 1, pending = [(''info'', PStr ''Downloading nemo...'')],
                     consumed = []\<rparr>"

definition ex_download :: pac where
  "ex_download = (ex_pac None None)\<lparr>last_dl_filename := Some ''nemo-4.0.pkg.tar.xz'',
                    last_dl_total_size := 1000, total_download_size := 1000,
                    downloaded_packages := 1\<rparr>"

section \<open>Properties\<close>

lemmas ex_db_defs = bash_core_def nemo_community_def nemo_antergos_def ex_core_def ex_community_def
  ex_antergos_def

lemmas ex_defs = ex_db_defs ex_dbs_def ex_env_def ex_transaction_def ex_handle_def ex_pac_def

subsection \<open>Repository priority\<close>

lemma find_sync_package_loop_first:
  "i < length dbs \<Longrightarrow> get_pkg (dbs ! i) n = Some p \<Longrightarrow>
   (\<forall>k<i. get_pkg (dbs ! k) n = None) \<Longrightarrow> find_sync_package_loop n dbs = Inr p"
proof (induction dbs arbitrary: i)
  case Nil
  then show ?case by simp
next
  case (Cons d ds)
  show ?case
  proof (cases i)
    case 0
    with Cons.prems show ?thesis by simp
  next
    case (Suc j)
    from Cons.prems Suc have d: "get_pkg d n = None" by auto
    from Cons.prems Suc have "j < length ds" "get_pkg (ds ! j) n = Some p"
      "\<forall>k<j. get_pkg (ds ! k) n = None" by auto
    then have "find_sync_package_loop n ds = Inr p" by (rule Cons.IH)
    with d show ?thesis by simp
  qed
qed

lemma find_sync_package_loop_Inl:
  "(find_sync_package_loop n dbs = Inl msg) =
   (msg = not_found_message n \<and> (\<forall>db\<in>set dbs. get_pkg db n = None))"
  by (induction dbs) (auto split: option.splits)

text \<open>
  Claim C4. For every ordered dictionary of sync repositories and every name: when the
  repository at index \<open>i\<close> has the name and none before it has, \<^verbatim>\<open>find_sync_package\<close>
  returns the package of the repository at index \<open>i\<close>, whatever later repositories
  hold; and it returns \<^verbatim>\<open>(False, message)\<close> exactly when no repository has the name.
\<close>

theorem find_sync_package_priority:
  "(\<forall>i p. i < length (od_values repos) \<and> get_pkg (od_values repos ! i) n = Some p \<and>
          (\<forall>k<i. get_pkg (od_values repos ! k) n = None)
          \<longrightarrow> find_sync_package n repos = Inr p)
   \<and> ((\<exists>msg. find_sync_package n repos = Inl msg)
        = (\<forall>db\<in>set (od_values repos). get_pkg db n = None))"
  unfolding find_sync_package_def
  using find_sync_package_loop_first[of _ "od_values repos" n]
  by (auto simp: find_sync_package_loop_Inl)

lemma ex_repos: "repos_of ex_dbs = [(''core'', ex_core), (''community'', ex_community), (''antergos'', ex_antergos)]"
  by (simp add: repos_of_def ex_defs)

text \<open>
  The claim at the three example repositories: nemo is in community (index 1) and in
  antergos (index 2) and not in core (index 0); zsh is in none.
\<close>

theorem find_sync_package_priority_witness:
  "get_pkg (od_values (repos_of ex_dbs) ! 1) ''nemo'' = Some nemo_community
   \<and> get_pkg (od_values (repos_of ex_dbs) ! 2) ''nemo'' = Some nemo_antergos
   \<and> get_pkg (od_values (repos_of ex_dbs) ! 0) ''nemo'' = None
   \<and> find_sync_package ''nemo'' (repos_of ex_dbs) = Inr nemo_community
   \<and> get_pkg ex_core ''zsh'' = None \<and> get_pkg ex_community ''zsh'' = None
   \<and> get_pkg ex_antergos ''zsh'' = None
   \<and> (\<exists>msg. find_sync_package ''zsh'' (repos_of ex_dbs) = Inl msg)"
proof -
  have h: "get_pkg (od_values (repos_of ex_dbs) ! 1) ''nemo'' = Some nemo_community"
    "get_pkg (od_values (repos_of ex_dbs) ! 2) ''nemo'' = Some nemo_antergos"
    "get_pkg (od_values (repos_of ex_dbs) ! 0) ''nemo'' = None"
    by (simp_all add: ex_repos od_values_def get_pkg_def ex_db_defs)
  have z: "get_pkg ex_core ''zsh'' = None" "get_pkg ex_community ''zsh'' = None"
    "get_pkg ex_antergos ''zsh'' = None"
    by (simp_all add: get_pkg_def ex_defs)
  have l: "(1::nat) < length (od_values (repos_of ex_dbs))"
    by (simp add: ex_repos od_values_def)
  have v: "set (od_values (repos_of ex_dbs)) = {ex_core, ex_community, ex_antergos}"
    by (auto simp add: ex_repos od_values_def)
  from find_sync_package_priority[of "repos_of ex_dbs" "''nemo''"] h l
  have a: "find_sync_package ''nemo'' (repos_of ex_dbs) = Inr nemo_community"
    by (metis less_one)
  from find_sync_package_priority[of "repos_of ex_dbs" "''zsh''"] z v
  have b: "\<exists>msg. find_sync_package ''zsh'' (repos_of ex_dbs) = Inl msg"
    by simp
  from h z a b show ?thesis by simp
qed

subsection \<open>Release of the transaction\<close>

text \<open>
  Claim C2. For every transaction, \<^verbatim>\<open>finalize_transaction\<close> calls \<^verbatim>\<open>release()\<close> exactly
  once, as the last call on the transaction, on each of its three paths: after
  \<^verbatim>\<open>prepare()\<close> and \<^verbatim>\<open>commit()\<close> when both succeed, after \<^verbatim>\<open>prepare()\<close> alone when it
  raises, after \<^verbatim>\<open>prepare()\<close> and \<^verbatim>\<open>commit()\<close> when \<^verbatim>\<open>commit()\<close> raises. It returns
  \<^verbatim>\<open>True\<close> exactly when neither raised.
\<close>

theorem finalize_transaction_release_once:
  "(case finalize_transaction t lg of
      (ok, t', lg') \<Rightarrow>
        count_list (calls t') Release = count_list (calls t) Release + 1
        \<and> calls t' = calls t @ (if prepare_error t = None then [Prepare, Commit, Release]
                                else [Prepare, Release])
        \<and> ok = (prepare_error t = None \<and> commit_error t = None))"
  by (auto simp: finalize_transaction_def called_def Let_def split: option.splits)

subsection \<open>Target resolution\<close>

lemma resolve_name_fst:
  "fst (resolve_name env dbs a c (tg, lg) n) = tg @ name_targets env dbs a c n"
  by (simp add: resolve_name_def name_targets_def Let_def split: sum.splits option.splits)

lemma resolve_name_snd:
  "snd (resolve_name env dbs a c (tg, lg) n) =
     lg @ (if unresolved env dbs a n then [(ERROR, PStr cant_find_msg, [PStr n])] else [])"
  by (simp add: resolve_name_def unresolved_def Let_def split: sum.splits option.splits)

lemma resolve_name_eq:
  "resolve_name env dbs a c (tg, lg) n =
     (tg @ name_targets env dbs a c n,
      lg @ (if unresolved env dbs a n then [(ERROR, PStr cant_find_msg, [PStr n])] else []))"
  by (simp add: prod_eq_iff resolve_name_fst resolve_name_snd)

lemma foldl_resolve_name:
  "foldl (resolve_name env dbs a c) (tg, lg) ns =
     (tg @ concat (map (name_targets env dbs a c) ns),
      lg @ concat (map (\<lambda>n. if unresolved env dbs a n
                              then [(ERROR, PStr cant_find_msg, [PStr n])] else []) ns))"
  by (induction ns arbitrary: tg lg) (simp_all add: resolve_name_eq)

lemma get_pkg_name: "get_pkg db n = Some p \<Longrightarrow> pkg_name p = n"
  by (auto simp: get_pkg_def find_Some_iff)

lemma find_sync_package_loop_name: "find_sync_package_loop n dbs = Inr p \<Longrightarrow> pkg_name p = n"
  by (induction dbs) (auto split: option.splits dest: get_pkg_name)

lemma name_targets_conflicts: "set (name_targets env dbs a c n) \<inter> set c = {}"
  by (auto simp: name_targets_def resolve_name_def Let_def split: sum.splits option.splits)

lemma unresolved_no_targets: "unresolved env dbs a n \<Longrightarrow> name_targets env dbs a c n = []"
  by (cases "name_in env n (one_repo_pkgs a)") (auto simp: name_targets_def unresolved_def resolve_name_def Let_def split: sum.splits option.splits)

lemma resolve_targets_eq:
  "resolve_targets env dbs a c pkgs lg =
     (remdups (concat (map (name_targets env dbs a c) (remdups pkgs))),
      lg @ concat (map (\<lambda>n. if unresolved env dbs a n
                              then [(ERROR, PStr cant_find_msg, [PStr n])] else []) (remdups pkgs)))"
  by (simp add: resolve_targets_def foldl_resolve_name)

text \<open>
  Claim C3. For every list of requested names, all repositories and every conflicts
  list, the deduplicated target list that \<^verbatim>\<open>install\<close> builds from package matches and
  group expansion holds no name of the conflicts list (and no name twice).
\<close>

theorem install_targets_exclude_conflicts:
  "set (fst (resolve_targets env dbs antergos conflicts pkgs lg)) \<inter> set conflicts = {}
   \<and> distinct (fst (resolve_targets env dbs antergos conflicts pkgs lg))"
  using name_targets_conflicts[of env dbs antergos conflicts]
  by (auto simp: resolve_targets_eq)

subsection \<open>The exclusive repository\<close>

lemma ex_one_repo_pkgs: "one_repo_pkgs ex_antergos = [nemo_antergos]"
  by (simp add: one_repo_pkgs_def one_repo_groups_def one_repo_groups_names_def read_grp_def
      ex_antergos_def)

lemma ex_find_all: "find_sync_package ''nemo'' (repos_of ex_dbs) = Inr nemo_community"
  by (simp add: ex_repos find_sync_package_def od_values_def get_pkg_def ex_db_defs)

lemma ex_find_antergos: "find_sync_package ''nemo'' [(''antergos'', ex_antergos)] = Inr nemo_antergos"
  by (simp add: find_sync_package_def od_values_def get_pkg_def ex_db_defs)

lemma ex_name_targets: "name_targets env ex_dbs ex_antergos [] ''nemo'' = [''nemo'']"
  by (simp add: name_targets_def resolve_name_def ex_find_all ex_find_antergos
      nemo_community_def nemo_antergos_def)

lemma ex_resolved: "\<not> unresolved env ex_dbs ex_antergos ''nemo''"
  by (simp add: unresolved_def ex_find_all ex_find_antergos)

lemma ex_targets: "resolve_targets env ex_dbs ex_antergos [] [''nemo''] lg = ([''nemo''], lg)"
  by (simp add: resolve_targets_eq ex_name_targets ex_resolved)

lemma ex_filter: "filter (\<lambda>db. db_name db = ''antergos'') ex_dbs = [ex_antergos]"
  by (simp add: ex_dbs_def ex_db_defs)

text \<open>
  Claim C1 says that a requested name of the exclusive-source set is never added to the
  transaction from a repository other than antergos. The resolution loop searches
  antergos alone for such a name (the source's comment: the package should be sourced
  from the antergos repo only), but the loop that fills the transaction looks every
  target up again in all repositories, in priority order. With community before
  antergos and nemo in both, nemo being a member of the antergos group cinnamon,
  \<^verbatim>\<open>install(["nemo"])\<close> succeeds and the one package added to the transaction is the
  package of community. This holds whatever Python's comparison of a package object
  with a string answers (\<open>pkg_eq_str\<close>).
\<close>

theorem install_exclusive_from_other_repo:
  "''nemo'' \<in> pkg_name ` set (one_repo_pkgs ex_antergos)
   \<and> fst (install env (ex_state (Inr (ex_transaction None None))) [''nemo''] None None) = Return True
   \<and> added_packages (snd (install env (ex_state (Inr (ex_transaction None None))) [''nemo''] None None))
       = [nemo_community]
   \<and> pkg_db nemo_community = ''community''"
  by (simp add: ex_one_repo_pkgs install_def conflicts_list_def ex_state_def ex_pac_def ex_handle_def ex_filter
      ex_targets logging_def init_transaction_def Let_def add_target_def ex_find_all
      finalize_transaction_def called_def ex_transaction_def added_packages_def
      nemo_community_def nemo_antergos_def)

subsection \<open>Failure for want of targets\<close>

lemma add_target_errors:
  "prepare_error (fst (add_target repos (t, lg) n)) = prepare_error t
   \<and> commit_error (fst (add_target repos (t, lg) n)) = commit_error t"
  by (simp add: add_target_def called_def split: sum.splits)

lemma add_target_log:
  "\<exists>ws. snd (add_target repos (t, lg) n) = lg @ ws \<and> (\<forall>e\<in>set ws. fst e = WARNING)"
  by (simp add: add_target_def split: sum.splits)

lemma foldl_add_target:
  "prepare_error (fst (foldl (add_target repos) (t, lg) ns)) = prepare_error t
   \<and> commit_error (fst (foldl (add_target repos) (t, lg) ns)) = commit_error t
   \<and> (\<exists>ws. snd (foldl (add_target repos) (t, lg) ns) = lg @ ws \<and> (\<forall>e\<in>set ws. fst e = WARNING))"
proof (induction ns arbitrary: t lg)
  case Nil
  show ?case by simp
next
  case (Cons n ns)
  obtain t1 lg1 where a: "add_target repos (t, lg) n = (t1, lg1)" by (cases "add_target repos (t, lg) n")
  from add_target_errors[of repos t lg n] a
  have e: "prepare_error t1 = prepare_error t" "commit_error t1 = commit_error t" by simp_all
  from add_target_log[of repos t lg n] a obtain ws1 where
    w1: "lg1 = lg @ ws1" "\<forall>e\<in>set ws1. fst e = WARNING" by auto
  from Cons.IH[of t1 lg1] obtain ws2 where
    w2: "snd (foldl (add_target repos) (t1, lg1) ns) = lg1 @ ws2" "\<forall>e\<in>set ws2. fst e = WARNING"
    and e2: "prepare_error (fst (foldl (add_target repos) (t1, lg1) ns)) = prepare_error t1"
      "commit_error (fst (foldl (add_target repos) (t1, lg1) ns)) = commit_error t1"
    by auto
  have "snd (foldl (add_target repos) (t, lg) (n # ns)) = lg @ (ws1 @ ws2)"
    using a w1 w2 by simp
  moreover have "\<forall>e\<in>set (ws1 @ ws2). fst e = WARNING" using w1 w2 by auto
  ultimately show ?case using a e e2 by auto
qed

lemma finalize_transaction_result:
  "fst (finalize_transaction t lg) = (prepare_error t = None \<and> commit_error t = None)"
  by (simp add: finalize_transaction_def called_def Let_def split: option.splits)

lemma finalize_transaction_log:
  "\<exists>fs. snd (snd (finalize_transaction t lg)) = lg @ fs \<and> no_targets_record \<notin> set fs"
  by (simp add: finalize_transaction_def called_def Let_def no_targets_record_def split: option.splits)

lemma unresolved_log_no_targets:
  "no_targets_record \<notin> set (concat (map (\<lambda>n. if unresolved env dbs a n
        then [(ERROR, PStr cant_find_msg, [PStr n])] else []) ns))"
  by (auto simp: no_targets_record_def)

lemma install_empty:
  assumes h: "handle s = Some h" and p: "pkgs \<noteq> []"
    and a: "filter (\<lambda>db. db_name db = ''antergos'') (syncdbs h) = antergos # rest"
    and r: "resolve_targets env (syncdbs h) antergos (conflicts_list conflicts) pkgs (logged s) = ([], lg)"
  shows "install env s pkgs conflicts opts =
           (Return False, s\<lparr>logged := lg @ [(DEBUG, PList [], []), no_targets_record]\<rparr>)"
  using h p a r
  by (simp add: install_def conflicts_list_def logging_def no_targets_record_def)

lemma install_nonempty:
  assumes h: "handle s = Some h" and p: "pkgs \<noteq> []"
    and a: "filter (\<lambda>db. db_name db = ''antergos'') (syncdbs h) = antergos # rest"
    and r: "resolve_targets env (syncdbs h) antergos (conflicts_list conflicts) pkgs (logged s) = (targets, lg)"
    and t: "targets \<noteq> []"
  shows "fst (install env s pkgs conflicts opts) = Return (engine_ok h opts)
         \<and> (\<exists>new. logged (snd (install env s pkgs conflicts opts)) = lg @ new
                   \<and> no_targets_record \<notin> set new)"
proof (cases "init_answer h (case opts of None \<Rightarrow> [] | Some ops \<Rightarrow> ops)")
  case (Inl err)
  with h p a r t show ?thesis
    by (simp add: install_def conflicts_list_def logging_def no_targets_record_def
        init_transaction_def engine_ok_def Let_def)
next
  case (Inr tr)
  define s4 where "s4 = s\<lparr>logged := lg @ [(DEBUG, PList targets, []),
      (DEBUG, PStr ''%d target(s) found'', [PNum (real_of_int (int (length targets)))])],
      total_packages_to_download := int (length targets),
      handle := Some (h\<lparr>trans := Some tr\<rparr>)\<rparr>"
  obtain t1 lg1 where f: "foldl (add_target (repos_of (syncdbs h))) (tr, logged s4) (rev targets) = (t1, lg1)"
    by (cases "foldl (add_target (repos_of (syncdbs h))) (tr, logged s4) (rev targets)")
  obtain ok t2 lg2 where fin: "finalize_transaction t1 lg1 = (ok, t2, lg2)"
    by (cases "finalize_transaction t1 lg1")
  from foldl_add_target[of "repos_of (syncdbs h)" tr "logged s4" "rev targets"] f
  obtain ws where e: "prepare_error t1 = prepare_error tr" "commit_error t1 = commit_error tr"
    and ws: "lg1 = logged s4 @ ws" "\<forall>e\<in>set ws. fst e = WARNING" by auto
  from finalize_transaction_result[of t1 lg1] fin e
  have ok: "ok = (prepare_error tr = None \<and> commit_error tr = None)" by simp
  from finalize_transaction_log[of t1 lg1] fin obtain fs where
    fs: "lg2 = lg1 @ fs" "no_targets_record \<notin> set fs" by auto
  have inst: "install env s pkgs conflicts opts =
      (Return ok, s4\<lparr>logged := lg2, handle := Some (h\<lparr>trans := Some t2\<rparr>)\<rparr>)"
    using h p a r t Inr f fin
    by (simp add: install_def conflicts_list_def logging_def init_transaction_def Let_def s4_def)
  have w: "no_targets_record \<notin> set ws" using ws(2) by (auto simp: no_targets_record_def)
  have "logged (snd (install env s pkgs conflicts opts)) =
      lg @ ([(DEBUG, PList targets, []),
             (DEBUG, PStr ''%d target(s) found'', [PNum (real_of_int (int (length targets)))])]
            @ ws @ fs)"
    using inst ws fs by (simp add: s4_def)
  moreover have "no_targets_record \<notin> set ([(DEBUG, PList targets, []),
             (DEBUG, PStr ''%d target(s) found'', [PNum (real_of_int (int (length targets)))])]
            @ ws @ fs)"
    using w fs(2) by (simp add: no_targets_record_def)
  ultimately show ?thesis using inst ok Inr by (auto simp: engine_ok_def)
qed

text \<open>
  Claim C5, as stated, says that \<^verbatim>\<open>install\<close> returns \<^verbatim>\<open>False\<close> exactly when the final
  target list is empty. It also returns \<^verbatim>\<open>False\<close> when the transaction cannot be
  initialised, prepared or committed: here the target list is nemo alone and
  \<^verbatim>\<open>commit()\<close> raises.
\<close>

theorem install_fails_with_targets:
  "fst (install ex_env (ex_state (Inr (ex_transaction None (Some ''failed retrieving file''))))
          [''nemo''] None None) = Return False
   \<and> fst (resolve_targets ex_env ex_dbs ex_antergos [] [''nemo'']
            (logged (ex_state (Inr (ex_transaction None (Some ''failed retrieving file''))))))
       = [''nemo'']"
  by (simp add: conflicts_list_def install_def ex_state_def ex_pac_def ex_handle_def ex_filter
      ex_targets logging_def init_transaction_def Let_def add_target_def ex_find_all
      finalize_transaction_def called_def ex_transaction_def)

text \<open>
  Claim C5, amended. With a handle, at least one requested name and a repository called
  antergos (without them \<^verbatim>\<open>install\<close> raises), \<^verbatim>\<open>install\<close> returns, and it returns
  \<^verbatim>\<open>True\<close> exactly when the final target list is not empty and the engine initialises,
  prepares and commits the transaction. It reports the failure "No targets found"
  exactly when the final target list is empty, and then leaves the handle as it was
  (no transaction is initialised). A name that is neither a package nor a group is
  logged as an error and skipped: the target list holds what the other names
  contribute.
\<close>

theorem install_no_targets_failure:
  fixes env s pkgs conflicts opts h antergos
  defines "targets \<equiv> fst (resolve_targets env (syncdbs h) antergos (conflicts_list conflicts)
                            pkgs (logged s))"
    and "r \<equiv> install env s pkgs conflicts opts"
  assumes h: "handle s = Some h" and p: "pkgs \<noteq> []"
    and a: "filter (\<lambda>db. db_name db = ''antergos'') (syncdbs h) = antergos # rest"
  shows "fst r = Return (targets \<noteq> [] \<and> engine_ok h opts)
       \<and> (no_targets_record \<in> set (new_log s (snd r))) = (targets = [])
       \<and> (targets = [] \<longrightarrow> handle (snd r) = handle s)
       \<and> (\<forall>n\<in>set pkgs. unresolved env (syncdbs h) antergos n \<longrightarrow>
             (ERROR, PStr cant_find_msg, [PStr n]) \<in> set (new_log s (snd r)))
       \<and> set targets = (\<Union>n\<in>set pkgs. set (name_targets env (syncdbs h) antergos
                                             (conflicts_list conflicts) n))"
proof -
  let ?c = "conflicts_list conflicts"
  let ?u = "concat (map (\<lambda>n. if unresolved env (syncdbs h) antergos n
                              then [(ERROR, PStr cant_find_msg, [PStr n])] else []) (remdups pkgs))"
  have rt: "resolve_targets env (syncdbs h) antergos ?c pkgs (logged s) = (targets, logged s @ ?u)"
    by (simp add: targets_def resolve_targets_eq)
  have u1: "no_targets_record \<notin> set ?u" by (rule unresolved_log_no_targets)
  have u2: "\<forall>n\<in>set pkgs. unresolved env (syncdbs h) antergos n \<longrightarrow>
              (ERROR, PStr cant_find_msg, [PStr n]) \<in> set ?u" by auto
  have tg: "set targets = (\<Union>n\<in>set pkgs. set (name_targets env (syncdbs h) antergos ?c n))"
    by (simp add: targets_def resolve_targets_eq)
  show ?thesis
  proof (cases "targets = []")
    case True
    with rt have "resolve_targets env (syncdbs h) antergos ?c pkgs (logged s) = ([], logged s @ ?u)"
      by simp
    from install_empty[OF h p a this, of opts]
    have i: "r = (Return False, s\<lparr>logged := (logged s @ ?u) @ [(DEBUG, PList [], []), no_targets_record]\<rparr>)"
      by (simp add: r_def)
    have nl: "new_log s (snd r) = ?u @ [(DEBUG, PList [], []), no_targets_record]"
      unfolding i by (simp add: new_log_def)
    show ?thesis using True tg u2 unfolding nl by (simp add: i)
  next
    case False
    from install_nonempty[OF h p a rt False, of opts] obtain new where
      f: "fst r = Return (engine_ok h opts)" and l: "logged (snd r) = (logged s @ ?u) @ new"
      and n: "no_targets_record \<notin> set new" by (auto simp: r_def)
    have nl: "new_log s (snd r) = ?u @ new" using l by (simp add: new_log_def)
    show ?thesis using False tg u1 u2 n f unfolding nl by auto
  qed
qed

lemma ex_state_handle: "handle (ex_state answer) = Some (ex_handle answer)"
  "syncdbs (ex_handle answer) = ex_dbs" "logged (ex_state answer) = []"
  by (simp_all add: ex_state_def ex_pac_def ex_handle_def)

lemma ex_zsh_unresolved: "unresolved env ex_dbs ex_antergos ''zsh''"
proof -
  have a: "find_sync_package ''zsh'' [(''antergos'', ex_antergos)] = Inl (not_found_message ''zsh'')"
    by (simp add: find_sync_package_def od_values_def get_pkg_def ex_db_defs)
  have b: "find_sync_package ''zsh'' (repos_of ex_dbs) = Inl (not_found_message ''zsh'')"
    by (simp add: ex_repos find_sync_package_def od_values_def get_pkg_def ex_db_defs)
  have g: "get_group_pkgs_loop ex_dbs ''zsh'' = None"
    by (simp add: ex_dbs_def read_grp_def ex_db_defs)
  show ?thesis by (simp add: unresolved_def a b g)
qed

text \<open>
  The amended claim at the example: nemo and zsh are requested, zsh is neither a
  package nor a group; the target list is nemo alone, the call succeeds, and the error
  for zsh is in the log.
\<close>

theorem install_no_targets_failure_witness:
  "handle (ex_state (Inr (ex_transaction None None)))
     = Some (ex_handle (Inr (ex_transaction None None)))
   \<and> [''nemo'', ''zsh''] \<noteq> []
   \<and> filter (\<lambda>db. db_name db = ''antergos'') (syncdbs (ex_handle (Inr (ex_transaction None None))))
       = ex_antergos # []
   \<and> fst (resolve_targets ex_env ex_dbs ex_antergos [] [''nemo'', ''zsh''] []) = [''nemo'']
   \<and> fst (install ex_env (ex_state (Inr (ex_transaction None None))) [''nemo'', ''zsh''] None None)
       = Return True
   \<and> no_targets_record \<notin> set (new_log (ex_state (Inr (ex_transaction None None)))
        (snd (install ex_env (ex_state (Inr (ex_transaction None None))) [''nemo'', ''zsh''] None None)))
   \<and> unresolved ex_env ex_dbs ex_antergos ''zsh''
   \<and> (ERROR, PStr cant_find_msg, [PStr ''zsh''])
        \<in> set (new_log (ex_state (Inr (ex_transaction None None)))
        (snd (install ex_env (ex_state (Inr (ex_transaction None None))) [''nemo'', ''zsh''] None None)))"
proof -
  let ?a = "Inr (ex_transaction None None) :: string + transaction"
  have h: "handle (ex_state ?a) = Some (ex_handle ?a)" by (rule ex_state_handle)
  have p: "[''nemo'', ''zsh''] \<noteq> ([] :: string list)" by simp
  have a: "filter (\<lambda>db. db_name db = ''antergos'') (syncdbs (ex_handle ?a)) = ex_antergos # []"
    by (simp add: ex_state_handle ex_filter)
  have z: "unresolved ex_env ex_dbs ex_antergos ''zsh''" by (rule ex_zsh_unresolved)
  have t: "fst (resolve_targets ex_env ex_dbs ex_antergos [] [''nemo'', ''zsh''] []) = [''nemo'']"
    by (simp add: resolve_targets_eq ex_name_targets unresolved_no_targets[OF z])
  have e: "engine_ok (ex_handle ?a) None"
    by (simp add: engine_ok_def ex_handle_def ex_transaction_def)
  from install_no_targets_failure[OF h p a, of ex_env None None] t e z h a
  show ?thesis by (simp add: ex_state_handle conflicts_list_def)
qed

subsection \<open>Suppression of repeated events\<close>

lemma queue_event_last_event:
  assumes "queue_event env s k v = (Return u, s')"
  shows "\<exists>t. formatted env k v = Inr t \<and> last_event s' = (last_event s)(k \<mapsto> t)"
proof (cases "formatted env k v")
  case (Inl e)
  with assms show ?thesis by (simp add: queue_event_def)
next
  case (Inr t)
  show ?thesis
  proof (cases "last_event s k = Some t")
    case True
    with assms Inr have "s' = s" by (simp add: queue_event_def)
    with True Inr show ?thesis by (auto simp: fun_upd_idem)
  next
    case False
    with assms Inr have "last_event s' = (last_event s)(k \<mapsto> t)"
      by (auto simp: queue_event_def Let_def logging_def split: option.splits if_splits)
    with Inr show ?thesis by simp
  qed
qed

lemma queue_events_other_kinds:
  "queue_events env s evs = (Return u, s') \<Longrightarrow> most_recent k evs = None \<Longrightarrow>
   last_event s' k = last_event s k"
proof (induction evs arbitrary: s)
  case Nil
  then show ?case by simp
next
  case (Cons ev evs)
  from Cons.prems(2) have n: "most_recent k evs = None" "fst ev \<noteq> k"
    by (auto split: option.splits if_splits)
  from Cons.prems(1) obtain u1 s1 where q: "queue_event env s (fst ev) (snd ev) = (Return u1, s1)"
    and r: "queue_events env s1 evs = (Return u, s')"
    by (auto split: prod.splits outcome.splits)
  from queue_event_last_event[OF q] n(2) have "last_event s1 k = last_event s k" by auto
  with Cons.IH[OF r n(1)] show ?case by simp
qed

lemma queue_events_most_recent:
  "queue_events env s evs = (Return u, s') \<Longrightarrow> most_recent k evs = Some v0 \<Longrightarrow>
   \<exists>t. formatted env k v0 = Inr t \<and> last_event s' k = Some t"
proof (induction evs arbitrary: s)
  case Nil
  then show ?case by simp
next
  case (Cons ev evs)
  from Cons.prems(1) obtain u1 s1 where q: "queue_event env s (fst ev) (snd ev) = (Return u1, s1)"
    and r: "queue_events env s1 evs = (Return u, s')"
    by (auto split: prod.splits outcome.splits)
  show ?case
  proof (cases "most_recent k evs")
    case (Some v)
    with Cons.prems(2) have "v = v0" by simp
    with Some Cons.IH[OF r] show ?thesis by simp
  next
    case None
    with Cons.prems(2) have k: "fst ev = k" "snd ev = v0" by (auto split: if_splits)
    from queue_event_last_event[OF q] k obtain t where
      t: "formatted env k v0 = Inr t" "last_event s1 k = Some t" by auto
    from queue_events_other_kinds[OF r None] t show ?thesis by simp
  qed
qed

text \<open>
  Claim C6. After every sequence of \<^verbatim>\<open>queue_event\<close> calls that returned, a call whose
  kind and formatted text equal those of the most recent call of that kind returns
  and changes nothing: nothing is put on the callback queue, nothing is logged, no
  attribute changes.
\<close>

theorem queue_event_suppresses_repeat:
  assumes "queue_events env s evs = (Return (), s')"
    and "most_recent event_type evs = Some previous_text"
    and "formatted env event_type event_text = formatted env event_type previous_text"
  shows "queue_event env s' event_type event_text = (Return (), s')"
proof -
  from queue_events_most_recent[OF assms(1,2)] obtain t where
    "formatted env event_type previous_text = Inr t" "last_event s' event_type = Some t" by auto
  with assms(3) show ?thesis by (simp add: queue_event_def)
qed

text \<open>
  The claim at an example: after a percent event 0.5 and an info event, the percent
  event 0.501, which is formatted to the same text 0.50, changes nothing.
\<close>

theorem queue_event_suppresses_repeat_witness:
  "fst (queue_events ex_env (ex_pac (Some ex_queue) None)
          [(''percent'', PNum (1 / 2)), (''info'', PStr ''Checking integrity...'')]) = Return ()
   \<and> most_recent ''percent''
          [(''percent'', PNum (1 / 2)), (''info'', PStr ''Checking integrity...'')]
        = Some (PNum (1 / 2))
   \<and> formatted ex_env ''percent'' (PNum (501 / 1000)) = formatted ex_env ''percent'' (PNum (1 / 2))
   \<and> queue_event ex_env
        (snd (queue_events ex_env (ex_pac (Some ex_queue) None)
          [(''percent'', PNum (1 / 2)), (''info'', PStr ''Checking integrity...'')]))
        ''percent'' (PNum (501 / 1000))
      = (Return (),
         snd (queue_events ex_env (ex_pac (Some ex_queue) None)
          [(''percent'', PNum (1 / 2)), (''info'', PStr ''Checking integrity...'')]))"
proof -
  let ?evs = "[(''percent'', PNum (1 / 2)), (''info'', PStr ''Checking integrity...'')]"
  let ?s = "ex_pac (Some ex_queue) None"
  have f: "formatted ex_env ''percent'' (PNum (1 / 2)) = Inr (PStr ''0.50'')"
    "formatted ex_env ''percent'' (PNum (501 / 1000)) = Inr (PStr ''0.50'')"
    "formatted ex_env ''info'' (PStr ''Checking integrity...'') = Inr (PStr ''Checking integrity...'')"
    by (simp_all add: formatted_def format_percent_def ex_env_def ex_format_2f_def Let_def)
  have r: "fst (queue_events ex_env ?s ?evs) = Return ()"
    by (simp add: queue_event_def f ex_pac_def ex_queue_def put_nowait_def Let_def)
  then have p: "queue_events ex_env ?s ?evs = (Return (), snd (queue_events ex_env ?s ?evs))"
    by (simp add: prod_eq_iff)
  have m: "most_recent ''percent'' ?evs = Some (PNum (1 / 2))" by simp
  have e: "formatted ex_env ''percent'' (PNum (501 / 1000)) = formatted ex_env ''percent'' (PNum (1 / 2))"
    using f by simp
  from queue_event_suppresses_repeat[OF p m e] r m e show ?thesis by simp
qed

subsection \<open>Download progress\<close>

lemma queue_event_tracker:
  "queue_event env s k v = (out, s') \<Longrightarrow>
   last_dl_filename s' = last_dl_filename s \<and> last_dl_total_size s' = last_dl_total_size s
   \<and> last_dl_progress s' = last_dl_progress s"
  by (auto simp: queue_event_def Let_def logging_def split: sum.splits option.splits if_splits)

lemma queue_events_tracker:
  "queue_events env s evs = (out, s') \<Longrightarrow>
   last_dl_filename s' = last_dl_filename s \<and> last_dl_total_size s' = last_dl_total_size s
   \<and> last_dl_progress s' = last_dl_progress s"
proof (induction evs arbitrary: s)
  case Nil
  then show ?case by simp
next
  case (Cons ev evs)
  obtain o1 s1 where q: "queue_event env s (fst ev) (snd ev) = (o1, s1)"
    by (cases "queue_event env s (fst ev) (snd ev)")
  note t = queue_event_tracker[OF q]
  show ?case
  proof (cases o1)
    case (Return u)
    with Cons.prems q have "queue_events env s1 evs = (out, s')" by simp
    from Cons.IH[OF this] t show ?thesis by simp
  next
    case (Raise e)
    with Cons.prems q have "s' = s1" by simp
    with t show ?thesis by simp
  next
    case (Exit c)
    with Cons.prems q have "s' = s1" by simp
    with t show ?thesis by simp
  qed
qed

lemma emit_tracker:
  "emit env (evs, out, s) = (out', s') \<Longrightarrow>
   last_dl_filename s' = last_dl_filename s \<and> last_dl_total_size s' = last_dl_total_size s
   \<and> last_dl_progress s' = last_dl_progress s"
proof -
  assume a: "emit env (evs, out, s) = (out', s')"
  obtain o1 s1 where q: "queue_events env s evs = (o1, s1)" by (cases "queue_events env s evs")
  with a have "s' = s1" by (cases o1) (simp_all add: emit_def)
  with queue_events_tracker[OF q] show ?thesis by simp
qed

lemma cb_dl_calls_same_stream:
  assumes "last_dl_filename s = Some filename" and "last_dl_total_size s = total'"
  shows "(case cb_dl_calls s filename transfer total' of (evs, out, s1) \<Rightarrow>
          last_dl_filename s1 = Some filename \<and> last_dl_total_size s1 = total'
          \<and> last_dl_progress s \<le> last_dl_progress s1
          \<and> (\<forall>v\<in>set (percents_of evs). last_dl_progress s < v \<and> v = last_dl_progress s1)
          \<and> length (percents_of evs) \<le> 1)"
  using assms
  by (auto simp: cb_dl_calls_def percents_of_def split: sum.splits)

lemma cb_dl_same_stream:
  assumes f: "last_dl_filename s = Some filename" and t: "last_dl_total_size s = total'"
    and c: "cb_dl env s filename transfer total' = (out, s')"
  shows "last_dl_filename s' = Some filename \<and> last_dl_total_size s' = total'
         \<and> last_dl_progress s \<le> last_dl_progress s'
         \<and> (\<forall>v\<in>set (percents_of (fst (cb_dl_calls s filename transfer total'))).
               last_dl_progress s < v \<and> v = last_dl_progress s')
         \<and> length (percents_of (fst (cb_dl_calls s filename transfer total'))) \<le> 1"
proof -
  obtain evs o1 s1 where k: "cb_dl_calls s filename transfer total' = (evs, o1, s1)"
    by (cases "cb_dl_calls s filename transfer total'")
  from c k have "emit env (evs, o1, s1) = (out, s')" by (simp add: cb_dl_def)
  from emit_tracker[OF this] cb_dl_calls_same_stream[OF f t, of transfer] k
  show ?thesis by simp
qed

lemma dl_stream_percents_increasing:
  assumes "last_dl_filename s = Some filename" and "last_dl_total_size s = total'"
  shows "sorted_wrt (<) (dl_stream_percents env s filename total' transfers)
         \<and> (\<forall>v\<in>set (dl_stream_percents env s filename total' transfers). last_dl_progress s < v)"
  using assms
proof (induction transfers arbitrary: s)
  case Nil
  show ?case by simp
next
  case (Cons transfer transfers)
  obtain out s' where c: "cb_dl env s filename transfer total' = (out, s')"
    by (cases "cb_dl env s filename transfer total'")
  note st = cb_dl_same_stream[OF Cons.prems c]
  let ?now = "percents_of (fst (cb_dl_calls s filename transfer total'))"
  have now: "sorted_wrt (<) ?now"
  proof -
    have "length ?now \<le> 1" using st by blast
    then show ?thesis by (cases ?now) simp_all
  qed
  show ?case
  proof (cases out)
    case (Return u)
    from st have p: "last_dl_filename s' = Some filename" "last_dl_total_size s' = total'" by simp_all
    note ih = Cons.IH[OF p]
    from Return c have eq: "dl_stream_percents env s filename total' (transfer # transfers) =
        ?now @ dl_stream_percents env s' filename total' transfers" by simp
    show ?thesis unfolding eq using now ih st by (fastforce simp: sorted_wrt_append)
  next
    case (Raise e)
    with c have "dl_stream_percents env s filename total' (transfer # transfers) = ?now" by simp
    with now st show ?thesis by simp
  next
    case (Exit n)
    with c have "dl_stream_percents env s filename total' (transfer # transfers) = ?now" by simp
    with now st show ?thesis by simp
  qed
qed

lemma cb_dl_calls_percents:
  assumes "last_dl_filename s = Some filename" and "last_dl_total_size s = total'"
  shows "percents_of (fst (cb_dl_calls s filename transfer total')) =
           (case dl_progress total' transfer of
              Inl e \<Rightarrow> []
            | Inr progress \<Rightarrow> if last_dl_progress s < progress then [progress] else [])"
  using assms by (simp add: cb_dl_calls_def percents_of_def split: sum.splits)

text \<open>
  Claim C7. In a call of \<^verbatim>\<open>cb_dl\<close> with the file name and total size of the previous
  call, a percent event is emitted exactly when the progress computed strictly exceeds
  the last reported progress of the file, and its value is that progress; so over every
  sequence of such calls the percent values emitted are strictly increasing, and all
  above the progress reported before the sequence.
\<close>

theorem cb_dl_percent_increasing:
  assumes "last_dl_filename s = Some filename" and "last_dl_total_size s = total'"
  shows "percents_of (fst (cb_dl_calls s filename transfer total')) =
           (case dl_progress total' transfer of
              Inl e \<Rightarrow> []
            | Inr progress \<Rightarrow> if last_dl_progress s < progress then [progress] else [])
         \<and> sorted_wrt (<) (dl_stream_percents env s filename total' transfers)
         \<and> (\<forall>v\<in>set (dl_stream_percents env s filename total' transfers).
               last_dl_progress s < v)"
  using cb_dl_calls_percents[OF assms, of transfer]
    dl_stream_percents_increasing[OF assms, of env transfers]
  by simp

text \<open>
  The claim at an example: for a file of 1000 bytes, the transfers 500, 500, 250, 750
  emit the percent values 0.5 and 0.75.
\<close>

theorem cb_dl_percent_increasing_witness:
  "last_dl_filename ex_download = Some ''nemo-4.0.pkg.tar.xz''
   \<and> last_dl_total_size ex_download = 1000
   \<and> dl_stream_percents ex_env ex_download ''nemo-4.0.pkg.tar.xz'' 1000 [500, 500, 250, 750]
       = [1 / 2, 3 / 4]
   \<and> sorted_wrt (<) (dl_stream_percents ex_env ex_download ''nemo-4.0.pkg.tar.xz'' 1000
        [500, 500, 250, 750])"
proof -
  have h: "last_dl_filename ex_download = Some ''nemo-4.0.pkg.tar.xz''"
    "last_dl_total_size ex_download = 1000"
    by (simp_all add: ex_download_def ex_pac_def)
  have f: "format_2f ex_env (1 / 2) = ''0.50''" "format_2f ex_env (3 / 4) = ''0.75''"
    by (simp_all add: ex_env_def ex_format_2f_def Let_def)
  have v: "dl_stream_percents ex_env ex_download ''nemo-4.0.pkg.tar.xz'' 1000 [500, 500, 250, 750]
       = [1 / 2, 3 / 4]"
    by (simp add: cb_dl_def cb_dl_calls_def dl_progress_def emit_def queue_event_def formatted_def
        format_percent_def f percents_of_def ex_download_def ex_pac_def logging_def Let_def)
  from cb_dl_percent_increasing[OF h, of 500 ex_env "[500, 500, 250, 750]"] h v
  show ?thesis by simp
qed

subsection \<open>The progress of a download of unknown size\<close>

lemma sqrt_200_bounds: "14 \<le> sqrt 200" "sqrt 200 \<le> 57 / 4"
proof -
  have "sqrt (14\<^sup>2) \<le> sqrt 200" by (rule real_sqrt_le_mono) simp
  then show "14 \<le> sqrt 200" by simp
  have "sqrt 200 \<le> sqrt ((57 / 4)\<^sup>2)" by (rule real_sqrt_le_mono) (simp add: power2_eq_square)
  then show "sqrt 200 \<le> 57 / 4" by simp
qed

lemma exp_sqrt_200_upper: "exp (sqrt 200) \<le> 4194305"
proof -
  have "exp (1 / 8 :: real) \<le> 1 + 1 / 8 + (1 / 8)\<^sup>2" by (rule exp_bound) simp_all
  then have e: "exp (1 / 8 :: real) \<le> 73 / 64" by (simp add: power2_eq_square)
  have "exp (sqrt 200) \<le> exp (57 / 4)" using sqrt_200_bounds(2) by simp
  also have "exp (57 / 4 :: real) = exp (of_nat 114 * (1 / 8))" by simp
  also have "\<dots> = exp (1 / 8) ^ 114" by (rule exp_of_nat_mult)
  also have "\<dots> \<le> (73 / 64) ^ 114" using e by (intro power_mono) simp_all
  also have "\<dots> \<le> (4194305 :: real)"
  proof -
    have "(73::real) ^ 114 \<le> 4194305 * 64 ^ 114" by simp
    then show ?thesis by (simp add: power_divide divide_le_eq)
  qed
  finally show ?thesis .
qed

lemma exp_sqrt_200_lower: "1048577 < exp (sqrt 200)"
proof -
  have "1 + (1 / 4 :: real) + (1 / 4)\<^sup>2 / 2 \<le> exp (1 / 4)"
    by (rule exp_lower_Taylor_quadratic) simp
  then have e: "(41 / 32 :: real) \<le> exp (1 / 4)" by (simp add: power2_eq_square)
  have "(1048577 :: real) < (41 / 32) ^ 56"
  proof -
    have "(1048577 :: real) * 32 ^ 56 < 41 ^ 56" by simp
    then show ?thesis by (simp add: power_divide less_divide_eq)
  qed
  also have "\<dots> \<le> exp (1 / 4) ^ 56" using e by (intro power_mono) simp_all
  also have "\<dots> = exp (of_nat 56 * (1 / 4 :: real))" by (rule exp_of_nat_mult[symmetric])
  also have "\<dots> = exp 14" by simp
  also have "\<dots> \<le> exp (sqrt 200)" using sqrt_200_bounds(1) by simp
  finally show ?thesis .
qed

lemma sq_less_200_iff:
  assumes "0 \<le> (y::real)"
  shows "(y\<^sup>2 / 2 / 100 < 1) = (y < sqrt 200)"
proof -
  have "(y\<^sup>2 / 2 / 100 < 1) = (y\<^sup>2 < 200)" by simp
  also have "\<dots> = (sqrt (y\<^sup>2) < sqrt 200)" by (simp only: real_sqrt_less_iff)
  also have "\<dots> = (y < sqrt 200)" using assms by (simp only: real_sqrt_abs abs_of_nonneg)
  finally show ?thesis .
qed

text \<open>
  Claim C8, as stated, says that the progress computed for a download of unknown size
  is below 1.0 for every transfer amount. At a transfer of \<open>2\<^sup>3\<^sup>2\<close> bytes
  it is \<open>(ln 4194305)\<^sup>2 / 200\<close>, which is at least 1 (about 1.16).
\<close>

theorem dl_unsized_progress_reaches_one:
  "dl_unsized_progress 4294967296 = Inr ((ln 4194305)\<^sup>2 / 2 / 100)
   \<and> 1 \<le> (ln (4194305::real))\<^sup>2 / 2 / 100"
proof -
  have d: "dl_unsized_progress 4294967296 = Inr ((ln 4194305)\<^sup>2 / 2 / 100)"
    by (simp add: dl_unsized_progress_def Let_def)
  have "sqrt 200 \<le> ln (4194305::real)"
    using exp_sqrt_200_upper by (simp add: ln_ge_iff)
  then have "\<not> ln (4194305::real) < sqrt 200" by simp
  then have "\<not> (ln (4194305::real))\<^sup>2 / 2 / 100 < 1"
    using sq_less_200_iff[of "ln (4194305::real)"] by simp
  with d show ?thesis by simp
qed

text \<open>
  Claim C8, amended. For every transfer amount that is not negative, the progress
  computed for a download of unknown size is below 1.0 exactly when the transfer is
  below \<open>1024 (e\<^bsup>sqrt 200\<^esup> - 1)\<close> bytes (about 1.42 billion); in particular for
  every transfer of at most \<open>2\<^sup>3\<^sup>0\<close> bytes.
\<close>

theorem dl_unsized_progress_threshold:
  assumes "0 \<le> transfer"
  shows "\<exists>v. dl_unsized_progress transfer = Inr v
           \<and> (v < 1) = (real_of_int transfer < 1024 * (exp (sqrt 200) - 1))
           \<and> (transfer \<le> 2 ^ 30 \<longrightarrow> v < 1)"
proof -
  define x where "x = 1 + real_of_int transfer / 1024"
  have x1: "1 \<le> x" using assms by (simp add: x_def)
  then have ln0: "0 \<le> ln x" by simp
  have d: "dl_unsized_progress transfer = Inr ((ln x)\<^sup>2 / 2 / 100)"
    using x1 by (simp add: dl_unsized_progress_def Let_def x_def[symmetric])
  have "((ln x)\<^sup>2 / 2 / 100 < 1) = (ln x < sqrt 200)" by (rule sq_less_200_iff[OF ln0])
  also have "\<dots> = (exp (ln x) < exp (sqrt 200))" by (simp only: exp_less_cancel_iff)
  also have "\<dots> = (x < exp (sqrt 200))" using x1 by simp
  also have "\<dots> = (real_of_int transfer < 1024 * (exp (sqrt 200) - 1))"
    by (simp add: x_def field_simps)
  finally have iff: "((ln x)\<^sup>2 / 2 / 100 < 1) = (real_of_int transfer < 1024 * (exp (sqrt 200) - 1))" .
  have "(ln x)\<^sup>2 / 2 / 100 < 1" if "transfer \<le> 2 ^ 30"
  proof -
    from that have "real_of_int transfer \<le> 2 ^ 30" by (metis of_int_le_iff of_int_numeral of_int_power)
    then have "real_of_int transfer \<le> 1024 * (1048577 - 1)" by simp
    also have "\<dots> < 1024 * (exp (sqrt 200) - 1)" using exp_sqrt_200_lower by simp
    finally show ?thesis using iff by simp
  qed
  with d iff show ?thesis by blast
qed

text \<open>
  The amended claim at a transfer of \<open>2\<^sup>2\<^sup>0\<close> bytes.
\<close>

theorem dl_unsized_progress_threshold_witness:
  "(0::int) \<le> 1048576 \<and> (1048576::int) \<le> 2 ^ 30
   \<and> dl_unsized_progress 1048576 = Inr ((ln 1025)\<^sup>2 / 2 / 100)
   \<and> (ln (1025::real))\<^sup>2 / 2 / 100 < 1"
proof -
  have d: "dl_unsized_progress 1048576 = Inr ((ln 1025)\<^sup>2 / 2 / 100)"
    by (simp add: dl_unsized_progress_def Let_def)
  from dl_unsized_progress_threshold[of 1048576] obtain v where
    v: "dl_unsized_progress 1048576 = Inr v" "v < 1" by auto
  from v(1) d have "v = (ln 1025)\<^sup>2 / 2 / 100" by (simp only: sum.inject)
  with v(2) d show ?thesis by simp
qed

subsection \<open>Fatal events\<close>

text \<open>
  An error event that is not a repetition ends the process with status 1. Without a
  consumer it is logged first; with a consumer whose queue has room it is put on the
  queue and the queue is drained first, so that the consumer has it.
\<close>

lemma queue_event_error_no_consumer:
  assumes "callback_queue s = None" and "last_event s ''error'' \<noteq> Some event_text"
  shows "queue_event env s ''error'' event_text =
           (Exit 1, s\<lparr>last_event := (last_event s)(''error'' \<mapsto> event_text),
                       logged := logged s @ [(ERROR, error_text env event_text, [])]\<rparr>)"
  using assms by (simp add: queue_event_def formatted_def logging_def Let_def)

lemma queue_event_error_with_room:
  assumes "callback_queue s = Some q" and "last_event s ''error'' \<noteq> Some event_text"
    and "\<not> (0 < maxsize q \<and> maxsize q \<le> length (pending q))"
  shows "queue_event env s ''error'' event_text =
           (Exit 1, s\<lparr>last_event := (last_event s)(''error'' \<mapsto> event_text),
                       callback_queue := Some (q\<lparr>pending := [],
                         consumed := consumed q @ pending q
                                     @ [(''error'', error_text env event_text)]\<rparr>)\<rparr>)"
  using assms by (auto simp add: queue_event_def formatted_def put_nowait_def join_def Let_def)

text \<open>
  Claim C9 says that with a consumer attached the error event is enqueued and observed
  by the consumer before the process ends. When the queue is full, \<^verbatim>\<open>put_nowait\<close>
  raises \<^verbatim>\<open>queue.Full\<close>, which the source catches with a warning; it then waits for
  the queue to drain and exits, although its comment says that a fatal event has been
  queued. With a queue of capacity one holding one event, the consumer is left with
  that event alone: the error event never reaches it.
\<close>

theorem queue_event_error_dropped_when_full:
  "fst (queue_event env (ex_pac (Some ex_full_queue) None) ''error'' (PStr ''No targets found''))
     = Exit 1
   \<and> callback_queue (snd (queue_event env (ex_pac (Some ex_full_queue) None) ''error''
        (PStr ''No targets found'')))
     = Some \<lparr>maxsize = 1, pending = [], consumed = [(''info'', PStr ''Downloading nemo...'')]\<rparr>
   \<and> logged (snd (queue_event env (ex_pac (Some ex_full_queue) None) ''error''
        (PStr ''No targets found'')))
     = [(WARNING, PStr ''Callback queue is full'', [])]"
  by (simp add: queue_event_def formatted_def ex_pac_def ex_full_queue_def put_nowait_def
      logging_def join_def Let_def)

subsection \<open>The division in \<^verbatim>\<open>cb_progress\<close>\<close>

lemma queue_event_returns:
  assumes "k \<noteq> ''error''" and "formatted env k v = Inr t"
  shows "fst (queue_event env s k v) = Return ()"
  using assms by (simp add: queue_event_def Let_def split: option.splits)

lemma emit_return: "emit env (evs, Return (), s) = queue_events env s evs"
proof (cases "queue_events env s evs")
  case (Pair out s')
  then show ?thesis by (cases out) (simp_all add: emit_def)
qed

text \<open>
  Claim C10. For every call of \<^verbatim>\<open>cb_progress\<close> with a target that is not empty: when
  \<^verbatim>\<open>total\<close> is not 0 the call is exactly the two \<^verbatim>\<open>queue_event\<close> calls, the info event
  followed by the percent event \<^verbatim>\<open>current / total\<close>, performed on the state, and it
  returns; when \<^verbatim>\<open>total\<close> is 0 it performs the info event and then raises
  \<^verbatim>\<open>ZeroDivisionError\<close>: the division is not guarded.
\<close>

theorem cb_progress_division:
  assumes "target \<noteq> []"
  shows "(total' \<noteq> 0 \<longrightarrow>
            cb_progress_calls target percent total' current =
              ([(''info'', PStr (installing_msg target current total')),
                (''percent'', PNum (real_of_int current / real_of_int total'))], Return ())
            \<and> cb_progress env s target percent total' current =
                queue_events env s
                  [(''info'', PStr (installing_msg target current total')),
                   (''percent'', PNum (real_of_int current / real_of_int total'))]
            \<and> fst (cb_progress env s target percent total' current) = Return ())
       \<and> (total' = 0 \<longrightarrow>
            fst (cb_progress_calls target percent total' current) =
              [(''info'', PStr (installing_msg target current total'))]
            \<and> cb_progress env s target percent total' current =
                (Raise ZeroDivisionError,
                 snd (queue_event env s ''info'' (PStr (installing_msg target current total'))))
            \<and> fst (cb_progress env s target percent total' current) = Raise ZeroDivisionError)"
proof -
  let ?msg = "PStr (installing_msg target current total')"
  obtain o1 s1 where q1: "queue_event env s ''info'' ?msg = (o1, s1)"
    by (cases "queue_event env s ''info'' ?msg")
  have "fst (queue_event env s ''info'' ?msg) = Return ()"
    by (rule queue_event_returns) (simp_all add: formatted_def)
  with q1 have o1: "queue_event env s ''info'' ?msg = (Return (), s1)" by simp
  let ?p = "PNum (real_of_int current / real_of_int total')"
  obtain o2 s2 where q2: "queue_event env s1 ''percent'' ?p = (o2, s2)"
    by (cases "queue_event env s1 ''percent'' ?p")
  have "fst (queue_event env s1 ''percent'' ?p) = Return ()"
    by (rule queue_event_returns) (simp_all add: formatted_def format_percent_def)
  with q2 have o2: "queue_event env s1 ''percent'' ?p = (Return (), s2)" by simp
  show ?thesis
  proof (cases "total' = 0")
    case True
    have "cb_progress_calls target percent total' current = ([(''info'', ?msg)], Raise ZeroDivisionError)"
      using assms True by (simp add: cb_progress_calls_def)
    then show ?thesis using True o1 by (simp add: cb_progress_def emit_def)
  next
    case False
    have c: "cb_progress_calls target percent total' current =
        ([(''info'', ?msg), (''percent'', ?p)], Return ())"
      using assms False by (simp add: cb_progress_calls_def)
    then have e: "cb_progress env s target percent total' current =
        queue_events env s [(''info'', ?msg), (''percent'', ?p)]"
      by (simp add: cb_progress_def emit_return)
    have "fst (queue_events env s [(''info'', ?msg), (''percent'', ?p)]) = Return ()"
      using o1 o2 by simp
    with False c e show ?thesis by simp
  qed
qed

text \<open>
  The claim at the target nemo with an empty unbounded queue, once as package 1 of 4
  (both events reach the queue) and once with a total of 0 (the info event reaches the
  queue, then the call raises).
\<close>

theorem cb_progress_division_witness:
  "''nemo'' \<noteq> [] \<and> (4::int) \<noteq> 0
   \<and> cb_progress_calls ''nemo'' 50 4 1 =
       ([(''info'', PStr ''Installing nemo (1/4)''), (''percent'', PNum (1 / 4))], Return ())
   \<and> cb_progress ex_env (ex_pac (Some ex_queue) None) ''nemo'' 50 4 1 =
       queue_events ex_env (ex_pac (Some ex_queue) None)
         [(''info'', PStr ''Installing nemo (1/4)''), (''percent'', PNum (1 / 4))]
   \<and> fst (cb_progress ex_env (ex_pac (Some ex_queue) None) ''nemo'' 50 4 1) = Return ()
   \<and> callback_queue (snd (cb_progress ex_env (ex_pac (Some ex_queue) None) ''nemo'' 50 4 1)) =
       Some \<lparr>maxsize = 0,
             pending = [(''info'', PStr ''Installing nemo (1/4)''), (''percent'', PStr ''0.25'')],
             consumed = []\<rparr>
   \<and> fst (cb_progress_calls ''nemo'' 50 0 1) = [(''info'', PStr ''Installing nemo (1/0)'')]
   \<and> fst (cb_progress ex_env (ex_pac (Some ex_queue) None) ''nemo'' 50 0 1)
       = Raise ZeroDivisionError
   \<and> callback_queue (snd (cb_progress ex_env (ex_pac (Some ex_queue) None) ''nemo'' 50 0 1)) =
       Some \<lparr>maxsize = 0, pending = [(''info'', PStr ''Installing nemo (1/0)'')],
             consumed = []\<rparr>"
proof -
  let ?s = "ex_pac (Some ex_queue) None"
  have m: "installing_msg ''nemo'' 1 4 = ''Installing nemo (1/4)''"
    "installing_msg ''nemo'' 1 0 = ''Installing nemo (1/0)''"
    by (simp_all add: installing_msg_def str_int_def)
  have f: "format_2f ex_env (1 / 4) = ''0.25''"
    by (simp add: ex_env_def ex_format_2f_def Let_def)
  have q4: "callback_queue (snd (queue_events ex_env ?s
         [(''info'', PStr ''Installing nemo (1/4)''), (''percent'', PNum (1 / 4))])) =
       Some \<lparr>maxsize = 0,
             pending = [(''info'', PStr ''Installing nemo (1/4)''), (''percent'', PStr ''0.25'')],
             consumed = []\<rparr>"
    by (simp add: queue_event_def formatted_def format_percent_def f ex_pac_def ex_queue_def
        put_nowait_def Let_def)
  have q0: "callback_queue (snd (queue_event ex_env ?s ''info'' (PStr ''Installing nemo (1/0)''))) =
       Some \<lparr>maxsize = 0, pending = [(''info'', PStr ''Installing nemo (1/0)'')],
             consumed = []\<rparr>"
    by (simp add: queue_event_def formatted_def ex_pac_def ex_queue_def put_nowait_def Let_def)
  have n: "''nemo'' \<noteq> []" and z: "(4::int) \<noteq> 0" by simp_all
  from cb_progress_division[OF n, of 4 50 1 ex_env ?s] z
  have t4: "cb_progress_calls ''nemo'' 50 4 1 =
              ([(''info'', PStr (installing_msg ''nemo'' 1 4)),
                (''percent'', PNum (real_of_int 1 / real_of_int 4))], Return ())
            \<and> cb_progress ex_env ?s ''nemo'' 50 4 1 =
                queue_events ex_env ?s
                  [(''info'', PStr (installing_msg ''nemo'' 1 4)),
                   (''percent'', PNum (real_of_int 1 / real_of_int 4))]
            \<and> fst (cb_progress ex_env ?s ''nemo'' 50 4 1) = Return ()"
    by blast
  have r: "real_of_int 1 / real_of_int 4 = 1 / 4" by simp
  note t4' = t4[unfolded m r]
  note a4 = t4'[THEN conjunct1] and b4 = t4'[THEN conjunct2, THEN conjunct1]
    and c4 = t4'[THEN conjunct2, THEN conjunct2]
  from cb_progress_division[OF n, of 0 50 1 ex_env ?s]
  have t0: "fst (cb_progress_calls ''nemo'' 50 0 1) =
              [(''info'', PStr (installing_msg ''nemo'' 1 0))]
            \<and> cb_progress ex_env ?s ''nemo'' 50 0 1 =
                (Raise ZeroDivisionError,
                 snd (queue_event ex_env ?s ''info'' (PStr (installing_msg ''nemo'' 1 0))))
            \<and> fst (cb_progress ex_env ?s ''nemo'' 50 0 1) = Raise ZeroDivisionError"
    by blast
  note t0' = t0[unfolded m]
  note a0 = t0'[THEN conjunct1] and b0 = t0'[THEN conjunct2, THEN conjunct1]
    and c0 = t0'[THEN conjunct2, THEN conjunct2]
  have d4: "callback_queue (snd (cb_progress ex_env ?s ''nemo'' 50 4 1)) =
       Some \<lparr>maxsize = 0,
             pending = [(''info'', PStr ''Installing nemo (1/4)''), (''percent'', PStr ''0.25'')],
             consumed = []\<rparr>"
    unfolding b4 by (rule q4)
  have d0: "callback_queue (snd (cb_progress ex_env ?s ''nemo'' 50 0 1)) =
       Some \<lparr>maxsize = 0, pending = [(''info'', PStr ''Installing nemo (1/0)'')],
             consumed = []\<rparr>"
    unfolding b0 using q0 by simp
  from n z a4 b4 c4 d4 a0 c0 d0 show ?thesis by blast
qed

end
